theory Spec2Isabelle
  imports Complex_Main
begin

section \<open>Errors\<close>

text \<open>
  Every failure of the factories is a Python \<^verbatim>\<open>ValueError\<close>; the raise sites differ only
  in their message. The message is kept as a constructor, with the numbers that the
  source formats into it. \<^verbatim>\<open>TypeError\<close> is what Python raises when a class that still has
  abstract methods is instantiated.
\<close>

datatype message =
    ClientNotSet
      \<comment> \<open>'PyBullet client needs to be set'\<close>
  | LabelsSpaceLen nat nat
      \<comment> \<open>'Labels have length {} != obs space len {}'\<close>
  | LabelsObsLen nat nat
      \<comment> \<open>'Labels have length {} != obs len {}'\<close>
  | NoObservation
      \<comment> \<open>'Need to register at least one observation instance'\<close>
  | EmptyObservationSpace
      \<comment> \<open>'Can't generate an empty observation space'\<close>
  | NoReward
      \<comment> \<open>'Need to register at least one reward instance'\<close>

datatype error = ValueError message | TypeError

text \<open>
  The specification sorts the failures into kinds. A validation error is one of the two
  length complaints of \<^verbatim>\<open>register_observation\<close>; an empty-registry error is one of the
  three complaints about a factory nothing was registered with.
\<close>

fun is_ValidationError :: "error \<Rightarrow> bool" where
  "is_ValidationError (ValueError (LabelsSpaceLen a b)) = True"
| "is_ValidationError (ValueError (LabelsObsLen a b)) = True"
| "is_ValidationError e = False"

fun is_EmptyRegistryError :: "error \<Rightarrow> bool" where
  "is_EmptyRegistryError (ValueError NoObservation) = True"
| "is_EmptyRegistryError (ValueError EmptyObservationSpace) = True"
| "is_EmptyRegistryError (ValueError NoReward) = True"
| "is_EmptyRegistryError e = False"

section \<open>Observations (gym\_solo/core/obs.py)\<close>

text \<open>
  A \<^verbatim>\<open>spaces.Box\<close> is read by the factory through its two bound vectors only. The
  element type is left open: the factory never computes with a bound or an observed
  value, it only counts and concatenates them. Bounds and observed values are flat
  vectors, so that \<^verbatim>\<open>len(...)\<close> of one and its \<^verbatim>\<open>.size\<close> are the length of a list.
\<close>

record 'a Box =
  low :: "'a list"
  high :: "'a list"

type_synonym BulletClient = nat

text \<open>
  \<^verbatim>\<open>Observation\<close> is an abstract class. An object of it is given by what its abstract
  members return when the factory reads them (\<open>labels\<close>, \<open>observation_space\<close>,
  \<open>compute\<close>) together with the attribute \<^verbatim>\<open>_client\<close>, here \<open>client_attr\<close>, which is
  \<^verbatim>\<open>None\<close> until the setter has run.
\<close>

record 'a Observation =
  client_attr :: "BulletClient option"
  labels :: "string list"
  observation_space :: "'a Box"
  compute :: "'a list"

text \<open>The property \<^verbatim>\<open>client\<close>: its getter raises while nothing is bound.\<close>

definition client :: "'a Observation \<Rightarrow> error + BulletClient" where
  "client self =
     (case client_attr self of
        None \<Rightarrow> Inl (ValueError ClientNotSet)
      | Some c \<Rightarrow> Inr c)"

definition client_setter :: "'a Observation \<Rightarrow> BulletClient \<Rightarrow> 'a Observation" where
  "client_setter self c = self\<lparr>client_attr := Some c\<rparr>"

text \<open>
  Python passes observations by reference: the object the caller hands over, the one the
  factory mutates and the one it keeps in its list are the same object. The objects
  therefore live in a store, and the factory holds references into it. Whatever changes
  an observation between two calls of the factory (the simulation moving on, the caller
  touching the object) shows as a different store at the second call.
\<close>

type_synonym ref = nat

type_synonym 'a store = "ref \<Rightarrow> 'a Observation"

record 'a ObservationFactory =
  factory_client :: BulletClient
  observations :: "ref list"
  obs_space :: "'a Box option"

definition new_ObservationFactory :: "BulletClient \<Rightarrow> 'a ObservationFactory" where
  "new_ObservationFactory c =
     \<lparr>factory_client = c, observations = [], obs_space = None\<rparr>"

text \<open>
  \<^verbatim>\<open>register_observation\<close> returns what the call raised (or \<open>Inr ()\<close>), the factory and the
  store as the call leaves them. The client is bound first, in the store, before any
  length is read.
\<close>

definition register_observation ::
  "'a ObservationFactory \<Rightarrow> ref \<Rightarrow> 'a store \<Rightarrow> (error + unit) \<times> 'a ObservationFactory \<times> 'a store"
where
  "register_observation self r h =
     (let h' = h(r := client_setter (h r) (factory_client self));
          obs = h' r;
          lbl_len = length (labels obs);
          obs_space_len = length (low (observation_space obs));
          obs_len = length (compute obs)
      in if lbl_len \<noteq> obs_space_len then
           (Inl (ValueError (LabelsSpaceLen lbl_len obs_space_len)), self, h')
         else if lbl_len \<noteq> obs_len then
           (Inl (ValueError (LabelsObsLen lbl_len obs_len)), self, h')
         else
           (Inr (), self\<lparr>observations := observations self @ [r]\<rparr>, h'))"

text \<open>The loop of \<^verbatim>\<open>get_obs\<close>, with its two accumulators.\<close>

fun get_obs_loop ::
  "'a store \<Rightarrow> ref list \<Rightarrow> 'a list list \<Rightarrow> string list list \<Rightarrow> 'a list list \<times> string list list"
where
  "get_obs_loop h [] all_obs all_labels = (all_obs, all_labels)"
| "get_obs_loop h (r # rs) all_obs all_labels =
     get_obs_loop h rs (all_obs @ [compute (h r)]) (all_labels @ [labels (h r)])"

definition get_obs :: "'a ObservationFactory \<Rightarrow> 'a store \<Rightarrow> error + ('a list \<times> string list)" where
  "get_obs self h =
     (if observations self = [] then Inl (ValueError NoObservation)
      else
        (case get_obs_loop h (observations self) [] [] of
           (all_obs, all_labels) \<Rightarrow> Inr (concat all_obs, concat all_labels)))"

text \<open>The loop of \<^verbatim>\<open>get_observation_space\<close>: both lists are extended per observation.\<close>

fun space_loop :: "'a store \<Rightarrow> ref list \<Rightarrow> 'a list \<Rightarrow> 'a list \<Rightarrow> 'a list \<times> 'a list" where
  "space_loop h [] lower upper = (lower, upper)"
| "space_loop h (r # rs) lower upper =
     space_loop h rs (lower @ low (observation_space (h r)))
                     (upper @ high (observation_space (h r)))"

text \<open>
  \<^verbatim>\<open>get_observation_space\<close> returns the box (or what it raised) and the factory, whose
  cache it may have written. A \<^verbatim>\<open>Box\<close> object is truthy, so the test
  \<^verbatim>\<open>self._obs_space and not generate\<close> asks whether a cache exists.
\<close>

definition get_observation_space ::
  "'a ObservationFactory \<Rightarrow> bool \<Rightarrow> 'a store \<Rightarrow> (error + 'a Box) \<times> 'a ObservationFactory"
where
  "get_observation_space self generate h =
     (if observations self = [] then (Inl (ValueError EmptyObservationSpace), self)
      else if obs_space self \<noteq> None \<and> \<not> generate then (Inr (the (obs_space self)), self)
      else
        (case space_loop h (observations self) [] [] of
           (lower, upper) \<Rightarrow>
             (let b = \<lparr>low = lower, high = upper\<rparr>
              in (Inr b, self\<lparr>obs_space := Some b\<rparr>))))"

text \<open>
  A caller that registers the objects of a list one after another, and goes on after a
  registration that raised, as \<^verbatim>\<open>try: ... except ValueError: pass\<close> around each call
  does.
\<close>

fun register_all ::
  "'a ObservationFactory \<Rightarrow> ref list \<Rightarrow> 'a store \<Rightarrow> 'a ObservationFactory \<times> 'a store" where
  "register_all self [] h = (self, h)"
| "register_all self (r # rs) h =
     (case register_observation self r h of (res, self', h') \<Rightarrow> register_all self' rs h')"

section \<open>Rewards (gym\_solo/core/rewards.py)\<close>

text \<open>
  The factory computes with Python numbers: it multiplies a weight by what a reward
  computes and adds the products up. These numbers are floats (or whatever the caller
  registered), whose \<^verbatim>\<open>+\<close> and \<^verbatim>\<open>*\<close> round, overflow and do not associate. The type
  \<open>'f\<close> of numbers is therefore left open, and the operations are taken as they are:
  \<open>num_zero\<close> is the \<^verbatim>\<open>0\<close> that \<^verbatim>\<open>sum\<close> starts from, \<open>num_add\<close> is \<^verbatim>\<open>+\<close> and \<open>num_mul\<close>
  is \<^verbatim>\<open>*\<close>. Nothing is assumed of them.
\<close>

record 'f arithmetic =
  num_zero :: 'f
  num_add :: "'f \<Rightarrow> 'f \<Rightarrow> 'f"
  num_mul :: "'f \<Rightarrow> 'f \<Rightarrow> 'f"

text \<open>
  A \<^verbatim>\<open>Reward\<close> object has one member, \<^verbatim>\<open>compute()\<close>, which reads the simulation and may
  change state of its own. The type \<open>'r\<close> stands for reward objects and \<open>'s\<close> for the
  state that \<^verbatim>\<open>compute()\<close> reads and writes; the operations take
  \<open>compute :: 'r \<Rightarrow> 's \<Rightarrow> 'f \<times> 's\<close>, which gives for an object and a state what the call
  returns and the state it leaves. The factory itself never changes a reward.
\<close>

record ('r, 'f) WeightedReward =
  reward :: 'r
  weight :: 'f

record ('r, 'f) RewardFactory =
  rewards :: "('r, 'f) WeightedReward list"

definition new_RewardFactory :: "('r, 'f) RewardFactory" where
  "new_RewardFactory = \<lparr>rewards = []\<rparr>"


text \<open>
  \<^verbatim>\<open>sum(wr.weight * wr.reward.compute() for wr in self._rewards)\<close>: \<^verbatim>\<open>sum\<close> starts from 0
  and takes the items of the generator one by one, from the left; for each it calls
  \<^verbatim>\<open>compute()\<close>, multiplies the weight by the result, weight first, and adds the product
  to what it has so far.
\<close>

fun sum_weighted ::
  "'f arithmetic \<Rightarrow> ('r \<Rightarrow> 's \<Rightarrow> 'f \<times> 's) \<Rightarrow> 'f \<Rightarrow> ('r, 'f) WeightedReward list \<Rightarrow> 's \<Rightarrow> 'f \<times> 's"
where
  "sum_weighted ar compute_reward acc [] s = (acc, s)"
| "sum_weighted ar compute_reward acc (wr # wrs) s =
     (case compute_reward (reward wr) s of
        (v, s') \<Rightarrow>
          sum_weighted ar compute_reward
            (num_add ar acc (num_mul ar (weight wr) v)) wrs s')"

text \<open>
  \<^verbatim>\<open>get_reward\<close> returns the reward (or what it raised) and the state that the calls of
  \<^verbatim>\<open>compute()\<close> leave.
\<close>

definition get_reward ::
  "'f arithmetic \<Rightarrow> ('r \<Rightarrow> 's \<Rightarrow> 'f \<times> 's) \<Rightarrow> ('r, 'f) RewardFactory \<Rightarrow> 's \<Rightarrow> (error + 'f) \<times> 's"
where
  "get_reward ar compute_reward self s =
     (if rewards self = [] then (Inl (ValueError NoReward), s)
      else
        (case sum_weighted ar compute_reward (num_zero ar) (rewards self) s of
           (result, s') \<Rightarrow> (Inr result, s')))"


text \<open>
  Arithmetic that does not round, for examples on numbers where floating point does not
  round either.
\<close>

definition exact_arithmetic :: "'a::semiring_1 arithmetic" where
  "exact_arithmetic = \<lparr>num_zero = 0, num_add = (+), num_mul = (*)\<rparr>"

section \<open>Termination conditions\<close>

text \<open>
  Modelled from the spec: the module \<^verbatim>\<open>gym_solo/core/termination.py\<close> is absent, only its
  test is present. A termination condition is one of the two variants the specification
  names: the time-based one, with its threshold \<open>max_step_delta\<close> and its counter
  \<open>step_delta\<close>, or the perpetual one, which has neither.
\<close>

datatype TerminationCondition =
    TimeBasedTermination (max_step_delta: int) (step_delta: int)
  | PerpetualTermination

text \<open>
  Modelled from the spec: the constructor of the time-based variant, absent with its
  module. The test \<^verbatim>\<open>test_attributes\<close> reads the threshold back and a counter of 0.
\<close>

definition new_TimeBasedTermination :: "int \<Rightarrow> TerminationCondition" where
  "new_TimeBasedTermination n = TimeBasedTermination n 0"

text \<open>
  Modelled from the spec: \<^verbatim>\<open>reset()\<close>, absent with its module, zeroes the internal step
  counter.
\<close>

fun reset :: "TerminationCondition \<Rightarrow> TerminationCondition" where
  "reset (TimeBasedTermination m s) = TimeBasedTermination m 0"
| "reset PerpetualTermination = PerpetualTermination"

text \<open>
  Modelled from the spec: \<^verbatim>\<open>is_terminated()\<close>, absent with its module, increments the step
  counter by one and then returns whether the counter now exceeds the configured maximum;
  for the perpetual variant it always returns false. The result is the answer and the
  condition as the call leaves it.
\<close>

fun is_terminated :: "TerminationCondition \<Rightarrow> bool \<times> TerminationCondition" where
  "is_terminated (TimeBasedTermination m s) = (m < s + 1, TimeBasedTermination m (s + 1))"
| "is_terminated PerpetualTermination = (False, PerpetualTermination)"

text \<open>The condition after \<open>n\<close> calls of \<^verbatim>\<open>is_terminated()\<close> in a row.\<close>

primrec after_calls :: "nat \<Rightarrow> TerminationCondition \<Rightarrow> TerminationCondition" where
  "after_calls 0 t = t"
| "after_calls (Suc n) t = after_calls n (snd (is_terminated t))"

section \<open>Construction of the base environment\<close>

text \<open>
  Modelled from the spec: the class \<^verbatim>\<open>Solo8BaseEnv\<close> is absent, only its test is present.
  The backend session is opened in one of two modes.
\<close>

datatype connection_mode = GUI | DIRECT

text \<open>
  Modelled from the spec: the two operations a concrete variant must supply, as the calls
  the constructor makes of them; \<open>ResetCall b\<close> is \<^verbatim>\<open>reset(b)\<close>.
\<close>

datatype hook_call = LoadBodiesCall | ResetCall bool

text \<open>
  Modelled from the spec: what the absent base class keeps of an environment, its
  configuration and the mode of the session it holds (\<open>None\<close> while it holds none). A
  variant adds fields of its own.
\<close>

record 'c Solo8BaseEnv =
  config :: "'c option"
  session :: "connection_mode option"

text \<open>
  Modelled from the spec: a class of environments, given by the implementations it has
  of the two abstract operations; \<open>None\<close> is an operation still abstract.
\<close>

record ('c, 'z) env_class =
  load_bodies :: "(('c, 'z) Solo8BaseEnv_scheme \<Rightarrow> ('c, 'z) Solo8BaseEnv_scheme) option"
  reset_impl :: "(bool \<Rightarrow> ('c, 'z) Solo8BaseEnv_scheme \<Rightarrow> ('c, 'z) Solo8BaseEnv_scheme) option"

text \<open>
  Modelled from the spec: the absent base class itself, which implements neither
  operation.
\<close>

definition Solo8BaseEnv_class :: "('c, 'z) env_class" where
  "Solo8BaseEnv_class = \<lparr>load_bodies = None, reset_impl = None\<rparr>"

text \<open>
  Modelled from the spec: construction, absent with the base class. Creating an object of
  a class with an operation still abstract fails before anything runs (Python raises
  \<^verbatim>\<open>TypeError\<close>). Otherwise the session is opened, interactive or headless, the
  configuration is applied, \<^verbatim>\<open>load_bodies()\<close> is called and then \<^verbatim>\<open>reset(True)\<close>. The
  result is the environment and the calls of the two operations, in order. The argument
  \<open>self\<close> is the object as the variant's own constructor leaves it before it calls the
  base constructor.
\<close>

definition Solo8BaseEnv_init ::
  "('c, 'z) env_class \<Rightarrow> ('c, 'z) Solo8BaseEnv_scheme \<Rightarrow> 'c \<Rightarrow> bool \<Rightarrow>
     error + (('c, 'z) Solo8BaseEnv_scheme \<times> hook_call list)"
where
  "Solo8BaseEnv_init cls self cfg use_gui =
     (case load_bodies cls of
        None \<Rightarrow> Inl TypeError
      | Some lb \<Rightarrow>
          (case reset_impl cls of
             None \<Rightarrow> Inl TypeError
           | Some rs \<Rightarrow>
               (let e0 = self\<lparr>config := Some cfg,
                              session := Some (if use_gui then GUI else DIRECT)\<rparr>;
                    e1 = lb e0;
                    e2 = rs True e1
                in Inr (e2, [LoadBodiesCall, ResetCall True]))))"

text \<open>
  The variant of the test (test\_solo8\_base\_env.py): \<^verbatim>\<open>SimpleSoloEnv\<close> records in two
  fields of its own that its operations ran, and with which argument.
\<close>

record 'c SimpleSoloEnv = "'c Solo8BaseEnv" +
  reset_call :: "bool option"
  load_bodies_call :: "bool option"

definition SimpleSoloEnv_reset :: "bool \<Rightarrow> 'c SimpleSoloEnv \<Rightarrow> 'c SimpleSoloEnv" where
  "SimpleSoloEnv_reset init_call self = self\<lparr>reset_call := Some init_call\<rparr>"

definition SimpleSoloEnv_load_bodies :: "'c SimpleSoloEnv \<Rightarrow> 'c SimpleSoloEnv" where
  "SimpleSoloEnv_load_bodies self = self\<lparr>load_bodies_call := Some True\<rparr>"

definition SimpleSoloEnv_class ::
  "('c, \<lparr>reset_call :: bool option, load_bodies_call :: bool option\<rparr>) env_class" where
  "SimpleSoloEnv_class =
     \<lparr>load_bodies = Some SimpleSoloEnv_load_bodies, reset_impl = Some SimpleSoloEnv_reset\<rparr>"

text \<open>
  \<^verbatim>\<open>SimpleSoloEnv.__init__\<close>: both fields are set to \<^verbatim>\<open>None\<close>, then the base constructor
  runs.
\<close>

definition SimpleSoloEnv_init ::
  "'c \<Rightarrow> bool \<Rightarrow> error + ('c SimpleSoloEnv \<times> hook_call list)" where
  "SimpleSoloEnv_init cfg use_gui =
     Solo8BaseEnv_init SimpleSoloEnv_class
       \<lparr>config = None, session = None, reset_call = None, load_bodies_call = None\<rparr>
       cfg use_gui"

section \<open>Example objects\<close>

text \<open>
  A store with five observations over integers. Objects 0 and 1 are well formed. Object 2
  has two labels for one bound, object 3 has one label and one bound for two values,
  object 4 has two bounds for one label and one value. Every other reference holds an
  empty observation.
\<close>

definition blank_obs :: "int Observation" where
  "blank_obs =
     \<lparr>client_attr = None, labels = [],
      observation_space = \<lparr>low = [], high = []\<rparr>, compute = []\<rparr>"

definition ex_store :: "int store" where
  "ex_store = (\<lambda>r. blank_obs)
     (0 := \<lparr>client_attr = None, labels = [''x'', ''y''],
            observation_space = \<lparr>low = [0, 0], high = [5, 5]\<rparr>, compute = [1, 2]\<rparr>,
      1 := \<lparr>client_attr = None, labels = [''z''],
            observation_space = \<lparr>low = [- 1], high = [1]\<rparr>, compute = [0]\<rparr>,
      2 := \<lparr>client_attr = None, labels = [''a'', ''b''],
            observation_space = \<lparr>low = [0], high = [1]\<rparr>, compute = [7, 8]\<rparr>,
      3 := \<lparr>client_attr = None, labels = [''a''],
            observation_space = \<lparr>low = [0], high = [1]\<rparr>, compute = [7, 8]\<rparr>,
      4 := \<lparr>client_attr = None, labels = [''a''],
            observation_space = \<lparr>low = [0, 0], high = [1, 1]\<rparr>, compute = [7]\<rparr>)"

text \<open>A factory on client 7 after object 0 was registered with it.\<close>

definition ex_reg0 :: "(error + unit) \<times> int ObservationFactory \<times> int store" where
  "ex_reg0 = register_observation (new_ObservationFactory 7) 0 ex_store"

text \<open>The same factory after object 1 was registered as well, nothing else in between.\<close>

definition ex_reg1 :: "(error + unit) \<times> int ObservationFactory \<times> int store" where
  "ex_reg1 = register_observation (fst (snd ex_reg0)) 1 (snd (snd ex_reg0))"

text \<open>
  A caller that tries objects 0, 2, 1 and 3 in this order on a new factory; objects 2
  and 3 are refused.
\<close>

definition ex_run :: "int ObservationFactory \<times> int store" where
  "ex_run = register_all (new_ObservationFactory 7) [0, 2, 1, 3] ex_store"

text \<open>
  A second run, in which the combined space is asked for between the two registrations
  and again after the second one.
\<close>

definition cx_space0 :: "(error + int Box) \<times> int ObservationFactory" where
  "cx_space0 = get_observation_space (fst (snd ex_reg0)) False (snd (snd ex_reg0))"

definition cx_reg1 :: "(error + unit) \<times> int ObservationFactory \<times> int store" where
  "cx_reg1 = register_observation (snd cx_space0) 1 (snd (snd ex_reg0))"

definition cx_space1 :: "(error + int Box) \<times> int ObservationFactory" where
  "cx_space1 = get_observation_space (fst (snd cx_reg1)) False (snd (snd cx_reg1))"

section \<open>Properties of the observation factory\<close>

lemmas ex_defs =
  register_observation_def new_ObservationFactory_def ex_store_def client_setter_def
  blank_obs_def

lemma get_obs_loop_eq:
  "get_obs_loop h rs all_obs all_labels =
     (all_obs @ map (\<lambda>r. compute (h r)) rs, all_labels @ map (\<lambda>r. labels (h r)) rs)"
  by (induction rs arbitrary: all_obs all_labels) simp_all

lemma space_loop_eq:
  "space_loop h rs lower upper =
     (lower @ concat (map (\<lambda>r. low (observation_space (h r))) rs),
      upper @ concat (map (\<lambda>r. high (observation_space (h r))) rs))"
  by (induction rs arbitrary: lower upper) simp_all

lemma get_obs_eq:
  "get_obs self h =
     (if observations self = [] then Inl (ValueError NoObservation)
      else Inr (concat (map (\<lambda>r. compute (h r)) (observations self)),
                concat (map (\<lambda>r. labels (h r)) (observations self))))"
  by (simp add: get_obs_def get_obs_loop_eq)

lemma get_observation_space_eq:
  "get_observation_space self generate h =
     (if observations self = [] then (Inl (ValueError EmptyObservationSpace), self)
      else if obs_space self \<noteq> None \<and> \<not> generate then (Inr (the (obs_space self)), self)
      else (Inr \<lparr>low = concat (map (\<lambda>r. low (observation_space (h r))) (observations self)),
                  high = concat (map (\<lambda>r. high (observation_space (h r))) (observations self))\<rparr>,
            self\<lparr>obs_space := Some
                  \<lparr>low = concat (map (\<lambda>r. low (observation_space (h r))) (observations self)),
                   high = concat (map (\<lambda>r. high (observation_space (h r))) (observations self))\<rparr>\<rparr>))"
  by (simp add: get_observation_space_def space_loop_eq Let_def)

lemma register_observation_store:
  "snd (snd (register_observation self r h)) =
     h(r := (h r)\<lparr>client_attr := Some (factory_client self)\<rparr>)"
  by (simp add: register_observation_def client_setter_def Let_def)

text \<open>Binding a client changes nothing that the two queries read.\<close>

lemma get_obs_rebind:
  "get_obs self (h(r := (h r)\<lparr>client_attr := c\<rparr>)) = get_obs self h"
proof -
  have "(\<lambda>q. compute ((h(r := (h r)\<lparr>client_attr := c\<rparr>)) q)) = (\<lambda>q. compute (h q))"
    by (rule ext) simp
  moreover
  have "(\<lambda>q. labels ((h(r := (h r)\<lparr>client_attr := c\<rparr>)) q)) = (\<lambda>q. labels (h q))"
    by (rule ext) simp
  ultimately show ?thesis by (simp add: get_obs_eq)
qed

lemma get_observation_space_rebind:
  "get_observation_space self g (h(r := (h r)\<lparr>client_attr := c\<rparr>)) =
     get_observation_space self g h"
proof -
  have "(\<lambda>q. low (observation_space ((h(r := (h r)\<lparr>client_attr := c\<rparr>)) q))) =
        (\<lambda>q. low (observation_space (h q)))"
    by (rule ext) simp
  moreover
  have "(\<lambda>q. high (observation_space ((h(r := (h r)\<lparr>client_attr := c\<rparr>)) q))) =
        (\<lambda>q. high (observation_space (h q)))"
    by (rule ext) simp
  ultimately show ?thesis by (simp add: get_observation_space_eq)
qed

lemma ex_reg0_eval:
  "ex_reg0 = (Inr (), \<lparr>factory_client = 7, observations = [0], obs_space = None\<rparr>,
              ex_store(0 := (ex_store 0)\<lparr>client_attr := Some 7\<rparr>))"
  by (simp add: ex_reg0_def ex_defs)

lemma ex_store_simps:
  "ex_store 0 = \<lparr>client_attr = None, labels = [''x'', ''y''],
            observation_space = \<lparr>low = [0, 0], high = [5, 5]\<rparr>, compute = [1, 2]\<rparr>"
  "ex_store (Suc 0) = \<lparr>client_attr = None, labels = [''z''],
            observation_space = \<lparr>low = [- 1], high = [1]\<rparr>, compute = [0]\<rparr>"
  "ex_store 2 = \<lparr>client_attr = None, labels = [''a'', ''b''],
            observation_space = \<lparr>low = [0], high = [1]\<rparr>, compute = [7, 8]\<rparr>"
  by (simp_all add: ex_store_def)

lemma ex_reg1_eval:
  "ex_reg1 = (Inr (), \<lparr>factory_client = 7, observations = [0, 1], obs_space = None\<rparr>,
              ex_store(0 := (ex_store 0)\<lparr>client_attr := Some 7\<rparr>,
                       1 := (ex_store 1)\<lparr>client_attr := Some 7\<rparr>))"
  by (simp add: ex_reg1_def ex_reg0_eval) (simp add: ex_defs)

lemma ex_run_eval:
  "ex_run = (\<lparr>factory_client = 7, observations = [0, 1], obs_space = None\<rparr>,
             ex_store(0 := (ex_store 0)\<lparr>client_attr := Some 7\<rparr>,
                      2 := (ex_store 2)\<lparr>client_attr := Some 7\<rparr>,
                      1 := (ex_store 1)\<lparr>client_attr := Some 7\<rparr>,
                      3 := (ex_store 3)\<lparr>client_attr := Some 7\<rparr>))"
  by (simp add: ex_run_def ex_defs)

lemma cx_space0_eval:
  "cx_space0 = (Inr \<lparr>low = [0, 0], high = [5, 5]\<rparr>,
                \<lparr>factory_client = 7, observations = [0],
                 obs_space = Some \<lparr>low = [0, 0], high = [5, 5]\<rparr>\<rparr>)"
  by (simp add: cx_space0_def ex_reg0_eval get_observation_space_eq) (simp add: ex_defs)

lemma cx_reg1_eval:
  "cx_reg1 = (Inr (), \<lparr>factory_client = 7, observations = [0, 1],
                        obs_space = Some \<lparr>low = [0, 0], high = [5, 5]\<rparr>\<rparr>,
              ex_store(0 := (ex_store 0)\<lparr>client_attr := Some 7\<rparr>,
                       1 := (ex_store 1)\<lparr>client_attr := Some 7\<rparr>))"
  by (simp add: cx_reg1_def cx_space0_eval ex_reg0_eval) (simp add: ex_defs)

text \<open>
  Registration keeps what it checked: if every registered observation has as many labels
  as values before a call, in the store the call starts from, then so has every
  registered observation after it, in the store it leaves. A factory that was only ever
  changed by registrations, over a store that nothing else changed, therefore holds
  observations whose labels and values agree in number.
\<close>

lemma register_observation_shapes:
  assumes "register_observation self r h = (res, self', h')"
    and "\<forall>q\<in>set (observations self). length (labels (h q)) = length (compute (h q))"
  shows "\<forall>q\<in>set (observations self'). length (labels (h' q)) = length (compute (h' q))"
  using assms
  by (auto simp add: register_observation_def client_setter_def Let_def split: if_splits)

lemma register_all_shapes:
  assumes "register_all self rs h = (self', h')"
    and "\<forall>q\<in>set (observations self). length (labels (h q)) = length (compute (h q))"
  shows "\<forall>q\<in>set (observations self'). length (labels (h' q)) = length (compute (h' q))"
  using assms
proof (induction rs arbitrary: self h)
  case Nil
  then show ?case by simp
next
  case (Cons r rs)
  obtain res s1 h1 where step: "register_observation self r h = (res, s1, h1)"
    by (metis prod_cases3)
  with Cons.prems(1) have rest: "register_all s1 rs h1 = (self', h')"
    by simp
  from register_observation_shapes [OF step Cons.prems(2)]
  show ?case by (rule Cons.IH [OF rest])
qed

lemma length_concat_map: "length (concat (map f xs)) = (\<Sum>x\<leftarrow>xs. length (f x))"
  by (induction xs) simp_all

lemma sum_lengths_agree:
  "\<forall>r\<in>set rs. length (labels (h r)) = length (compute (h r)) \<Longrightarrow>
     (\<Sum>r\<leftarrow>rs. length (compute (h r))) = (\<Sum>r\<leftarrow>rs. length (labels (h r)))"
  by (induction rs) simp_all

text \<open>
  Claim C1, as the code has it. A successful \<^verbatim>\<open>register_observation(obs)\<close> appends \<open>obs\<close>
  to the registration sequence and leaves the cached combined space as it was. The next
  \<^verbatim>\<open>get_observation_space(generate=False)\<close> therefore returns the cache of before the
  registration when there is one, without the bounds of \<open>obs\<close>; it returns the space
  combined from all registered observations, \<open>obs\<close> included, only when no cache exists
  yet. With \<^verbatim>\<open>generate=True\<close> it always returns that combined space.
\<close>

theorem register_observation_keeps_cache:
  assumes "register_observation self r h = (Inr (), self', h')"
  shows "observations self' = observations self @ [r]
       \<and> obs_space self' = obs_space self
       \<and> fst (get_observation_space self' False h') =
           (case obs_space self of
              Some cached \<Rightarrow> Inr cached
            | None \<Rightarrow>
                Inr \<lparr>low = concat (map (\<lambda>q. low (observation_space (h' q)))
                                      (observations self @ [r])),
                     high = concat (map (\<lambda>q. high (observation_space (h' q)))
                                      (observations self @ [r]))\<rparr>)
       \<and> fst (get_observation_space self' True h') =
           Inr \<lparr>low = concat (map (\<lambda>q. low (observation_space (h' q)))
                                 (observations self @ [r])),
                high = concat (map (\<lambda>q. high (observation_space (h' q)))
                                 (observations self @ [r]))\<rparr>"
proof -
  have s: "self' = self\<lparr>observations := observations self @ [r]\<rparr>"
    using assms by (auto simp add: register_observation_def Let_def split: if_splits)
  show ?thesis
    unfolding s by (simp add: get_observation_space_eq split: option.split)
qed

theorem register_observation_keeps_cache_witness:
  "fst (get_observation_space (fst (snd cx_reg1)) False (snd (snd cx_reg1)))
      = Inr \<lparr>low = [0, 0], high = [5, 5]\<rparr>
   \<and> fst (get_observation_space (fst (snd cx_reg1)) True (snd (snd cx_reg1)))
      = Inr \<lparr>low = [0, 0, - 1], high = [5, 5, 1]\<rparr>
   \<and> fst (get_observation_space (fst (snd ex_reg1)) False (snd (snd ex_reg1)))
      = Inr \<lparr>low = [0, 0, - 1], high = [5, 5, 1]\<rparr>"
proof -
  note a = cx_reg1_eval [unfolded cx_reg1_def]
  note b = ex_reg1_eval [unfolded ex_reg1_def]
  have c: "obs_space (snd cx_space0) = Some \<lparr>low = [0, 0], high = [5, 5]\<rparr>"
          "obs_space (fst (snd ex_reg0)) = None"
          "observations (snd cx_space0) = [0]" "observations (fst (snd ex_reg0)) = [0]"
    by (simp_all add: cx_space0_eval ex_reg0_eval)
  show ?thesis
    using register_observation_keeps_cache [OF a] register_observation_keeps_cache [OF b]
    by (simp add: c cx_reg1_eval ex_reg1_eval ex_store_simps)
qed

text \<open>
  Claim C1, as it is stated, fails. Object 0 is registered and the combined space is
  asked for, which caches the box of object 0. Object 1, with the bounds -1 and 1, is
  then registered with success. Asked again with \<^verbatim>\<open>generate=False\<close>, the factory
  returns the box of object 0 alone; the bounds of object 1 appear only with
  \<^verbatim>\<open>generate=True\<close>.
\<close>

theorem stale_cache_counterexample:
  "fst cx_space0 = Inr \<lparr>low = [0, 0], high = [5, 5]\<rparr>
   \<and> fst cx_reg1 = Inr ()
   \<and> observations (fst (snd cx_reg1)) = [0, 1]
   \<and> low (observation_space (snd (snd cx_reg1) 1)) = [- 1]
   \<and> high (observation_space (snd (snd cx_reg1) 1)) = [1]
   \<and> fst cx_space1 = Inr \<lparr>low = [0, 0], high = [5, 5]\<rparr>
   \<and> fst (get_observation_space (fst (snd cx_reg1)) True (snd (snd cx_reg1)))
        = Inr \<lparr>low = [0, 0, - 1], high = [5, 5, 1]\<rparr>"
  by (simp add: cx_space1_def cx_reg1_eval cx_space0_eval get_observation_space_eq)
     (simp add: ex_defs)

text \<open>
  Claim C3. On a factory with at least one registered observation, \<^verbatim>\<open>get_obs()\<close> returns
  a vector and a list of labels. The vector is the concatenation of what \<^verbatim>\<open>compute()\<close>
  of each registered observation returns, in registration order, and the labels are the
  concatenation of their label lists in the same order; so the length of the vector is
  the sum of the lengths of the vectors, and the number of labels the sum of the numbers
  of labels. When each registered observation has one length of its own, as many labels
  as values, the vector and the labels have the same length, that sum. This is so in
  particular when the factory and the store are what registrations made of a new
  factory.
\<close>

theorem get_obs_concatenates:
  assumes "observations self \<noteq> []"
  shows "\<exists>vector lbls.
           get_obs self h = Inr (vector, lbls)
         \<and> vector = concat (map (\<lambda>r. compute (h r)) (observations self))
         \<and> lbls = concat (map (\<lambda>r. labels (h r)) (observations self))
         \<and> length vector = (\<Sum>r\<leftarrow>observations self. length (compute (h r)))
         \<and> length lbls = (\<Sum>r\<leftarrow>observations self. length (labels (h r)))
         \<and> ((\<forall>r\<in>set (observations self). length (labels (h r)) = length (compute (h r)))
              \<longrightarrow> length vector = length lbls)
         \<and> (register_all (new_ObservationFactory c) rs h0 = (self, h)
              \<longrightarrow> length vector = length lbls)"
proof -
  have reached: "\<forall>q\<in>set (observations self). length (labels (h q)) = length (compute (h q))"
    if "register_all (new_ObservationFactory c) rs h0 = (self, h)"
    using register_all_shapes [OF that] by (simp add: new_ObservationFactory_def)
  from assms show ?thesis
    using sum_lengths_agree [of "observations self" h] reached
    by (auto simp add: get_obs_eq length_concat_map)
qed

theorem get_obs_concatenates_witness:
  "register_all (new_ObservationFactory 7) [0, 2, 1, 3] ex_store = (fst ex_run, snd ex_run)
   \<and> observations (fst ex_run) = [0, 1]
   \<and> get_obs (fst ex_run) (snd ex_run) = Inr ([1, 2, 0], [''x'', ''y'', ''z''])
   \<and> length [1, 2, 0 :: int] = length [''x'', ''y'', ''z'']"
proof -
  have registered: "observations (fst ex_run) = [0, 1]"
    by (simp add: ex_run_eval)
  then have nonempty: "observations (fst ex_run) \<noteq> []"
    by simp
  obtain vector lbls where
    result: "get_obs (fst ex_run) (snd ex_run) = Inr (vector, lbls)"
    and v: "vector = concat (map (\<lambda>r. compute (snd ex_run r)) (observations (fst ex_run)))"
    and l: "lbls = concat (map (\<lambda>r. labels (snd ex_run r)) (observations (fst ex_run)))"
    using get_obs_concatenates [OF nonempty, of "snd ex_run" 7 "[0, 2, 1, 3]" ex_store]
    by blast
  have "vector = [1, 2, 0]"
    unfolding v by (simp add: ex_run_eval ex_store_simps)
  moreover have "lbls = [''x'', ''y'', ''z'']"
    unfolding l by (simp add: ex_run_eval ex_store_simps)
  ultimately show ?thesis
    using result registered by (simp add: ex_run_def)
qed

text \<open>
  Claim C2. \<^verbatim>\<open>register_observation(obs)\<close> succeeds exactly when the number of labels, the
  number of bounds of the observation space and the length of the computed vector are
  all equal. Whenever two of the three differ it raises one of its two length
  complaints and leaves the factory as it was; on success the factory is the old one
  with \<open>obs\<close> appended. In either case the object itself keeps its labels, its space and
  its vector: only its client is bound, so nothing is truncated or padded.
\<close>

theorem register_observation_checks_lengths:
  "(fst (register_observation self r h) = Inr ()) =
      (length (labels (h r)) = length (low (observation_space (h r))) \<and>
       length (low (observation_space (h r))) = length (compute (h r)) \<and>
       length (labels (h r)) = length (compute (h r)))
   \<and> (fst (register_observation self r h) \<noteq> Inr () \<longrightarrow>
        (\<exists>e. fst (register_observation self r h) = Inl e \<and> is_ValidationError e) \<and>
        fst (snd (register_observation self r h)) = self)
   \<and> (fst (register_observation self r h) = Inr () \<longrightarrow>
        fst (snd (register_observation self r h)) =
          self\<lparr>observations := observations self @ [r]\<rparr>)
   \<and> snd (snd (register_observation self r h)) =
        h(r := (h r)\<lparr>client_attr := Some (factory_client self)\<rparr>)"
  by (auto simp add: register_observation_def client_setter_def Let_def)

theorem register_observation_checks_lengths_witness:
  "fst (register_observation (new_ObservationFactory 7) 0 ex_store) = Inr ()
   \<and> fst (snd (register_observation (new_ObservationFactory 7) 0 ex_store))
       = \<lparr>factory_client = 7, observations = [0], obs_space = None\<rparr>
   \<and> fst (register_observation (new_ObservationFactory 7) 2 ex_store)
       = Inl (ValueError (LabelsSpaceLen 2 1))
   \<and> fst (register_observation (new_ObservationFactory 7) 3 ex_store)
       = Inl (ValueError (LabelsObsLen 1 2))
   \<and> fst (register_observation (new_ObservationFactory 7) 4 ex_store)
       = Inl (ValueError (LabelsSpaceLen 1 2))
   \<and> fst (snd (register_observation (new_ObservationFactory 7) 4 ex_store))
       = new_ObservationFactory 7"
  using register_observation_checks_lengths [of "new_ObservationFactory 7" 0 ex_store]
        register_observation_checks_lengths [of "new_ObservationFactory 7" 2 ex_store]
        register_observation_checks_lengths [of "new_ObservationFactory 7" 3 ex_store]
        register_observation_checks_lengths [of "new_ObservationFactory 7" 4 ex_store]
  by (simp add: ex_defs)

text \<open>
  Claim C10. When \<^verbatim>\<open>register_observation(obs)\<close> raises, the factory is unchanged: \<open>obs\<close> is
  not appended, and \<^verbatim>\<open>get_obs\<close> and \<^verbatim>\<open>get_observation_space\<close> answer afterwards as
  they would have before the call. The observation that was passed is changed all the
  same: its client is the factory's client after the call, and reading the property
  \<^verbatim>\<open>client\<close> succeeds. Nothing else of it, and no other object, is touched.
\<close>

theorem failed_registration_effect:
  assumes "register_observation self r h = (Inl e, self', h')"
  shows "self' = self
       \<and> get_obs self' h' = get_obs self h
       \<and> get_observation_space self' False h' = get_observation_space self False h
       \<and> get_observation_space self' True h' = get_observation_space self True h
       \<and> client_attr (h' r) = Some (factory_client self)
       \<and> client (h' r) = Inr (factory_client self)
       \<and> labels (h' r) = labels (h r)
       \<and> observation_space (h' r) = observation_space (h r)
       \<and> compute (h' r) = compute (h r)
       \<and> (\<forall>q. q \<noteq> r \<longrightarrow> h' q = h q)"
proof -
  have s: "self' = self"
    using assms by (auto simp add: register_observation_def Let_def split: if_splits)
  have h': "h' = h(r := (h r)\<lparr>client_attr := Some (factory_client self)\<rparr>)"
    using register_observation_store [of self r h] assms by simp
  show ?thesis
    unfolding s h' by (simp add: get_obs_rebind get_observation_space_rebind client_def)
qed

theorem failed_registration_effect_witness:
  "fst (register_observation (fst (snd ex_reg0)) 2 (snd (snd ex_reg0)))
       = Inl (ValueError (LabelsSpaceLen 2 1))
   \<and> fst (snd (register_observation (fst (snd ex_reg0)) 2 (snd (snd ex_reg0))))
       = fst (snd ex_reg0)
   \<and> client (ex_store 2) = Inl (ValueError ClientNotSet)
   \<and> client (snd (snd (register_observation (fst (snd ex_reg0)) 2 (snd (snd ex_reg0)))) 2)
       = Inr 7
   \<and> get_obs (fst (snd ex_reg0))
         (snd (snd (register_observation (fst (snd ex_reg0)) 2 (snd (snd ex_reg0)))))
       = Inr ([1, 2], [''x'', ''y''])"
proof -
  define res where "res = register_observation (fst (snd ex_reg0)) 2 (snd (snd ex_reg0))"
  have raised: "fst res = Inl (ValueError (LabelsSpaceLen 2 1))"
    unfolding res_def by (simp add: ex_reg0_eval) (simp add: ex_defs)
  have kept: "fst (snd res) = fst (snd ex_reg0)"
    unfolding res_def by (simp add: ex_reg0_eval) (simp add: ex_defs)
  have run: "register_observation (fst (snd ex_reg0)) 2 (snd (snd ex_reg0))
     = (Inl (ValueError (LabelsSpaceLen 2 1)), fst (snd ex_reg0), snd (snd res))"
    using raised kept unfolding res_def by (metis prod.collapse)
  have before: "get_obs (fst (snd ex_reg0)) (snd (snd ex_reg0)) = Inr ([1, 2], [''x'', ''y''])"
    by (simp add: ex_reg0_eval get_obs_eq) (simp add: ex_defs)
  have unbound: "client (ex_store 2) = Inl (ValueError ClientNotSet)"
    by (simp add: client_def ex_defs)
  have bound: "factory_client (fst (snd ex_reg0)) = 7"
    by (simp add: ex_reg0_eval)
  from failed_registration_effect [OF run]
  have "get_obs (fst (snd ex_reg0)) (snd (snd res))
          = get_obs (fst (snd ex_reg0)) (snd (snd ex_reg0))"
    and "client (snd (snd res) 2) = Inr (factory_client (fst (snd ex_reg0)))"
    by simp_all
  with raised kept before unbound bound show ?thesis
    unfolding res_def by simp
qed

section \<open>Properties shared by the factories\<close>

text \<open>
  Claim C4. On an observation factory with no registered observation, \<^verbatim>\<open>get_obs()\<close> and
  \<^verbatim>\<open>get_observation_space()\<close>, with either value of its flag, raise; on a reward factory
  with no registered reward, \<^verbatim>\<open>get_reward()\<close> raises. Each of the three errors is an
  empty-registry error, no call returns an empty result, the observation factory is left
  as it was, and \<^verbatim>\<open>get_reward()\<close> computes no reward before it raises.
\<close>

theorem empty_registry_raises:
  assumes "observations self = []" and "rewards rf = []"
  shows "get_obs self h = Inl (ValueError NoObservation)
       \<and> get_observation_space self False h = (Inl (ValueError EmptyObservationSpace), self)
       \<and> get_observation_space self True h = (Inl (ValueError EmptyObservationSpace), self)
       \<and> get_reward ar rc rf s = (Inl (ValueError NoReward), s)
       \<and> is_EmptyRegistryError (ValueError NoObservation)
       \<and> is_EmptyRegistryError (ValueError EmptyObservationSpace)
       \<and> is_EmptyRegistryError (ValueError NoReward)"
  using assms by (simp add: get_obs_def get_observation_space_def get_reward_def)

theorem empty_registry_raises_witness:
  "get_obs (new_ObservationFactory 7) ex_store = Inl (ValueError NoObservation)
   \<and> get_observation_space (new_ObservationFactory 7) False ex_store
       = (Inl (ValueError EmptyObservationSpace), new_ObservationFactory 7)
   \<and> get_observation_space (new_ObservationFactory 7) True ex_store
       = (Inl (ValueError EmptyObservationSpace), new_ObservationFactory 7)
   \<and> get_reward (exact_arithmetic :: real arithmetic) (\<lambda>(r::nat) (s::nat). (1, s))
         new_RewardFactory 0
       = (Inl (ValueError NoReward), 0)"
  using empty_registry_raises [where self = "new_ObservationFactory 7"
      and rf = "new_RewardFactory" and h = ex_store
      and ar = "exact_arithmetic :: real arithmetic"
      and rc = "\<lambda>(r::nat) (s::nat). (1, s)" and s = 0]
  by (simp add: new_ObservationFactory_def new_RewardFactory_def)

section \<open>Properties of the reward factory\<close>





section \<open>Properties of the termination conditions\<close>

lemma after_calls_TimeBased:
  "after_calls n (TimeBasedTermination m s) = TimeBasedTermination m (s + int n)"
  by (induction n arbitrary: s) simp_all

lemma after_calls_Perpetual: "after_calls n PerpetualTermination = PerpetualTermination"
  by (induction n) simp_all

text \<open>
  Claim C6. Take a time-based condition with threshold \<open>N\<close>, new or reset. For every
  \<open>k < N\<close>, call number \<open>k + 1\<close> of \<^verbatim>\<open>is_terminated()\<close> returns false and leaves the
  counter at \<open>k + 1\<close>; after \<open>N\<close> calls the counter is \<open>N\<close>. Call number \<open>N + 1\<close> returns
  true and leaves the counter at \<open>N + 1\<close>. After any number \<open>j\<close> of calls, \<^verbatim>\<open>reset()\<close>
  gives back the condition as it was constructed, with counter 0, so what follows is
  what follows construction.
\<close>

theorem time_based_termination_counts:
  "(\<forall>k<N. is_terminated (after_calls k (new_TimeBasedTermination (int N)))
             = (False, TimeBasedTermination (int N) (int k + 1)))
   \<and> after_calls N (new_TimeBasedTermination (int N)) = TimeBasedTermination (int N) (int N)
   \<and> is_terminated (after_calls N (new_TimeBasedTermination (int N)))
        = (True, TimeBasedTermination (int N) (int N + 1))
   \<and> step_delta (reset (after_calls j (new_TimeBasedTermination (int N)))) = 0
   \<and> reset (after_calls j (new_TimeBasedTermination (int N))) = new_TimeBasedTermination (int N)"
  by (simp add: new_TimeBasedTermination_def after_calls_TimeBased)

theorem time_based_termination_counts_witness:
  "is_terminated (after_calls 0 (new_TimeBasedTermination 3)) = (False, TimeBasedTermination 3 1)
   \<and> is_terminated (after_calls 1 (new_TimeBasedTermination 3)) = (False, TimeBasedTermination 3 2)
   \<and> is_terminated (after_calls 2 (new_TimeBasedTermination 3)) = (False, TimeBasedTermination 3 3)
   \<and> is_terminated (after_calls 3 (new_TimeBasedTermination 3)) = (True, TimeBasedTermination 3 4)
   \<and> reset (after_calls 4 (new_TimeBasedTermination 3)) = new_TimeBasedTermination 3"
  using time_based_termination_counts [of 3 4]
  by (simp add: new_TimeBasedTermination_def after_calls_TimeBased)

text \<open>
  Claim C7. Whatever the number \<open>n\<close> of calls made before, \<^verbatim>\<open>is_terminated()\<close> of the
  perpetual condition returns false.
\<close>

theorem perpetual_never_terminates:
  "is_terminated (after_calls n PerpetualTermination) = (False, PerpetualTermination)"
  by (simp add: after_calls_Perpetual)

theorem perpetual_never_terminates_witness:
  "fst (is_terminated (after_calls 1000 PerpetualTermination)) = False"
  using perpetual_never_terminates [of 1000] by simp

section \<open>Properties of the construction of an environment\<close>

text \<open>
  Claim C8. Constructing the abstract base class fails, and so does constructing any
  class that leaves \<^verbatim>\<open>load_bodies\<close> or \<^verbatim>\<open>reset\<close> abstract: the failure is the result of
  the construction, there is no environment to use afterwards. Constructing a class that
  supplies both succeeds; the environment returned is the one \<^verbatim>\<open>reset(True)\<close> made of
  the one \<^verbatim>\<open>load_bodies()\<close> made of the opened session, and the calls of the two
  operations during construction are exactly these two, in this order. For the variant
  of the test, both of its fields are set when construction returns.
\<close>

theorem construction_calls_hooks_once:
  "Solo8BaseEnv_init Solo8BaseEnv_class self cfg use_gui = Inl TypeError
   \<and> (load_bodies cls = None \<or> reset_impl cls = None \<longrightarrow>
        Solo8BaseEnv_init cls self cfg use_gui = Inl TypeError)
   \<and> (load_bodies cls = Some lb \<and> reset_impl cls = Some rs \<longrightarrow>
        Solo8BaseEnv_init cls self cfg use_gui =
          Inr (rs True (lb (self\<lparr>config := Some cfg,
                                 session := Some (if use_gui then GUI else DIRECT)\<rparr>)),
               [LoadBodiesCall, ResetCall True]))
   \<and> SimpleSoloEnv_init cfg use_gui =
        Inr (\<lparr>config = Some cfg, session = Some (if use_gui then GUI else DIRECT),
              reset_call = Some True, load_bodies_call = Some True\<rparr>,
             [LoadBodiesCall, ResetCall True])"
  by (auto simp add: Solo8BaseEnv_init_def Solo8BaseEnv_class_def SimpleSoloEnv_init_def
        SimpleSoloEnv_class_def SimpleSoloEnv_reset_def SimpleSoloEnv_load_bodies_def Let_def
      split: option.splits)

theorem construction_calls_hooks_once_witness:
  "Solo8BaseEnv_init Solo8BaseEnv_class
      \<lparr>config = None, session = None, reset_call = None, load_bodies_call = None\<rparr>
      (0::nat) False
     = Inl TypeError
   \<and> Solo8BaseEnv_init SimpleSoloEnv_class
      \<lparr>config = None, session = None, reset_call = None, load_bodies_call = None\<rparr>
      (0::nat) False
     = Inr (\<lparr>config = Some 0, session = Some DIRECT,
              reset_call = Some True, load_bodies_call = Some True\<rparr>,
             [LoadBodiesCall, ResetCall True])
   \<and> SimpleSoloEnv_init (0::nat) True
     = Inr (\<lparr>config = Some 0, session = Some GUI,
              reset_call = Some True, load_bodies_call = Some True\<rparr>,
             [LoadBodiesCall, ResetCall True])"
  using construction_calls_hooks_once [where cls = SimpleSoloEnv_class
      and lb = SimpleSoloEnv_load_bodies and rs = SimpleSoloEnv_reset
      and self = "\<lparr>config = None, session = None, reset_call = None, load_bodies_call = None\<rparr>"
      and cfg = "0::nat" and use_gui = False]
    construction_calls_hooks_once [where cls = SimpleSoloEnv_class
      and lb = SimpleSoloEnv_load_bodies and rs = SimpleSoloEnv_reset
      and self = "\<lparr>config = None, session = None, reset_call = None, load_bodies_call = None\<rparr>"
      and cfg = "0::nat" and use_gui = True]
  by (simp add: SimpleSoloEnv_class_def SimpleSoloEnv_reset_def SimpleSoloEnv_load_bodies_def)

end
